theory Spec2Isabelle
  imports Main "HOL-Library.AList"
begin

section \<open>Values, exceptions and dictionary operations\<close>

text \<open>
  The script processes the document returned by \<^verbatim>\<open>json.load\<close>. Its values are
  modelled by the datatype below. A dictionary is an association list in insertion order
  (the order \<^verbatim>\<open>.items()\<close> and \<^verbatim>\<open>.values()\<close> iterate in); its keys are strings.
  Numbers are integers: no function of the script computes with a number of the report.
\<close>

datatype json =
    JNull
  | JBool bool
  | JNum int
  | JStr string
  | JArr "json list"
  | JObj "(string \<times> json) list"

text \<open>
  Exceptions are values. \<open>ProcessError\<close> is the script's own class and carries its
  \<^verbatim>\<open>message\<close> attribute; \<open>KeyError\<close> carries the missing key; \<open>Exception\<close> stands for any
  other exception an external step raises (download, subprocess, file access, JSON decoding)
  and carries the text of that exception.
\<close>

datatype error =
    ProcessError string
  | KeyError json
  | TypeError
  | IndexError
  | AttributeError
  | Exception string

definition bind_result :: "error + 'a \<Rightarrow> ('a \<Rightarrow> error + 'b) \<Rightarrow> error + 'b" where
  "bind_result r f = (case r of Inl e \<Rightarrow> Inl e | Inr x \<Rightarrow> f x)"

text \<open>\<^verbatim>\<open>obj[key]\<close> with a string key: only a dictionary accepts it.\<close>

fun py_getitem :: "json \<Rightarrow> string \<Rightarrow> error + json" where
  "py_getitem (JObj kvs) k =
     (case map_of kvs k of None \<Rightarrow> Inl (KeyError (JStr k)) | Some v \<Rightarrow> Inr v)"
| "py_getitem _ k = Inl TypeError"

text \<open>\<^verbatim>\<open>obj[key] = value\<close>: an existing key keeps its position, a new key goes last.\<close>

fun py_setitem :: "json \<Rightarrow> string \<Rightarrow> json \<Rightarrow> error + json" where
  "py_setitem (JObj kvs) k v = Inr (JObj (AList.update k v kvs))"
| "py_setitem _ k v = Inl TypeError"

text \<open>\<^verbatim>\<open>del obj[key]\<close>.\<close>

fun py_delitem :: "json \<Rightarrow> string \<Rightarrow> error + json" where
  "py_delitem (JObj kvs) k =
     (case map_of kvs k of None \<Rightarrow> Inl (KeyError (JStr k))
      | Some v \<Rightarrow> Inr (JObj (AList.delete k kvs)))"
| "py_delitem _ k = Inl TypeError"

text \<open>
  \<^verbatim>\<open>obj.pop(key)\<close> returns the value and the dictionary without the key. A list has a
  \<^verbatim>\<open>pop\<close> that rejects a string argument; the other values have no such attribute.
\<close>

fun py_pop :: "json \<Rightarrow> string \<Rightarrow> error + (json \<times> json)" where
  "py_pop (JObj kvs) k =
     (case map_of kvs k of None \<Rightarrow> Inl (KeyError (JStr k))
      | Some v \<Rightarrow> Inr (v, JObj (AList.delete k kvs)))"
| "py_pop (JArr xs) k = Inl TypeError"
| "py_pop _ k = Inl AttributeError"

text \<open>
  \<^verbatim>\<open>for x in obj\<close>: a list yields its elements, a dictionary its keys, a string its
  characters; nothing else is iterable.
\<close>

fun py_iter :: "json \<Rightarrow> error + json list" where
  "py_iter (JArr xs) = Inr xs"
| "py_iter (JObj kvs) = Inr (map (\<lambda>kv. JStr (fst kv)) kvs)"
| "py_iter (JStr s) = Inr (map (\<lambda>c. JStr [c]) s)"
| "py_iter _ = Inl TypeError"

text \<open>\<^verbatim>\<open>obj.items()\<close> and \<^verbatim>\<open>obj.values()\<close> exist on dictionaries only.\<close>

fun py_items :: "json \<Rightarrow> error + (string \<times> json) list" where
  "py_items (JObj kvs) = Inr kvs"
| "py_items _ = Inl AttributeError"

fun py_values :: "json \<Rightarrow> error + json list" where
  "py_values (JObj kvs) = Inr (map snd kvs)"
| "py_values _ = Inl AttributeError"

text \<open>
  \<^verbatim>\<open>"%s" % value\<close>: a string is inserted as it is. What \<^verbatim>\<open>str()\<close> makes of any other
  value is the interpreter's business and is taken as the parameter \<open>str_of\<close>.
\<close>

fun py_format_s :: "(json \<Rightarrow> string) \<Rightarrow> json \<Rightarrow> string" where
  "py_format_s str_of (JStr s) = s"
| "py_format_s str_of v = str_of v"

section \<open>Severity taxonomy\<close>

definition STATUS_CODE :: "string \<rightharpoonup> int" where
  "STATUS_CODE = map_of
     [(''SUCCESS'', 0), (''INFO'', 25), (''WARNING'', 51),
      (''SKIP'', 101), (''OVERRIDABLE'', 152), (''ERROR'', 202)]"

text \<open>
  \<^verbatim>\<open>STATUS_CODE[key]\<close> and \<^verbatim>\<open>key in STATUS_CODE\<close>. Lists and dictionaries are unhashable,
  so both raise on them; any other value that is not one of the six names is just absent.
\<close>

fun status_code_getitem :: "json \<Rightarrow> error + int" where
  "status_code_getitem (JStr name) =
     (case STATUS_CODE name of None \<Rightarrow> Inl (KeyError (JStr name)) | Some n \<Rightarrow> Inr n)"
| "status_code_getitem (JArr xs) = Inl TypeError"
| "status_code_getitem (JObj kvs) = Inl TypeError"
| "status_code_getitem v = Inl (KeyError v)"

fun status_code_contains :: "json \<Rightarrow> error + bool" where
  "status_code_contains (JStr name) = Inr (STATUS_CODE name \<noteq> None)"
| "status_code_contains (JArr xs) = Inl TypeError"
| "status_code_contains (JObj kvs) = Inl TypeError"
| "status_code_contains v = Inr False"

section \<open>Report aggregator\<close>

text \<open>
  \<^verbatim>\<open>collect_report_level\<close>, first part: the two nested loops that append every level to
  \<^verbatim>\<open>action_level_combined\<close>, the accumulator of the functions below.
\<close>

fun collect_message_levels :: "json list \<Rightarrow> json list \<Rightarrow> error + json list" where
  "collect_message_levels [] action_level_combined = Inr action_level_combined"
| "collect_message_levels (message # rest) action_level_combined =
     bind_result (py_getitem message ''level'') (\<lambda>level.
     collect_message_levels rest (action_level_combined @ [level]))"

fun collect_action_levels :: "json list \<Rightarrow> json list \<Rightarrow> error + json list" where
  "collect_action_levels [] action_level_combined = Inr action_level_combined"
| "collect_action_levels (v # rest) action_level_combined =
     bind_result (py_getitem v ''result'') (\<lambda>result.
     bind_result (py_getitem result ''level'') (\<lambda>level.
     bind_result (py_getitem v ''messages'') (\<lambda>messages.
     bind_result (py_iter messages) (\<lambda>messages.
     bind_result (collect_message_levels messages (action_level_combined @ [level]))
       (\<lambda>action_level_combined.
     collect_action_levels rest action_level_combined)))))"

text \<open>The list comprehension \<^verbatim>\<open>[level for level in ... if level in STATUS_CODE]\<close>.\<close>

fun valid_levels :: "json list \<Rightarrow> error + json list" where
  "valid_levels [] = Inr []"
| "valid_levels (level # rest) =
     bind_result (status_code_contains level) (\<lambda>keep.
     bind_result (valid_levels rest) (\<lambda>kept.
     Inr (if keep then level # kept else kept)))"

text \<open>
  \<^verbatim>\<open>list.sort(key=..., reverse=True)\<close> computes the key of every element first, then sorts
  stably with every comparison reversed: elements of equal key keep their order.
\<close>

fun sort_keys :: "json list \<Rightarrow> error + (int \<times> json) list" where
  "sort_keys [] = Inr []"
| "sort_keys (status # rest) =
     bind_result (status_code_getitem status) (\<lambda>n.
     bind_result (sort_keys rest) (\<lambda>keyed.
     Inr ((n, status) # keyed)))"

definition sort_by_status_code_reverse :: "json list \<Rightarrow> error + json list" where
  "sort_by_status_code_reverse levels =
     bind_result (sort_keys levels) (\<lambda>keyed.
     Inr (map snd (sort_key (\<lambda>p. - fst p) keyed)))"

definition collect_report_level :: "json \<Rightarrow> error + json list" where
  "collect_report_level action_results =
     bind_result (py_values action_results) (\<lambda>vs.
     bind_result (collect_action_levels vs []) (\<lambda>action_level_combined.
     bind_result (valid_levels action_level_combined) (\<lambda>valid_action_levels.
     sort_by_status_code_reverse valid_action_levels)))"

section \<open>Human message\<close>

text \<open>
  \<^verbatim>\<open>generate_report_message\<close>: three \<^verbatim>\<open>if\<close> statements in sequence, each of which may
  overwrite \<^verbatim>\<open>message\<close>.
\<close>

definition generate_report_message :: "json \<Rightarrow> error + string" where
  "generate_report_message highest_status =
     bind_result (status_code_getitem highest_status) (\<lambda>rank.
     bind_result (status_code_getitem (JStr ''WARNING'')) (\<lambda>warning.
       let message = '''';
           message = (if rank < warning
                      then ''No problems found. The system is ready for conversion.''
                      else message);
           message = (if rank = warning
                      then ''The conversion can proceed. '' @
                           ''However, there is one or more warnings about issues that might occur after the conversion.''
                      else message);
           message = (if rank > warning
                      then ''The conversion cannot proceed. You must resolve existing issues to perform the conversion.''
                      else message)
       in Inr message))"

section \<open>Message transformer\<close>

text \<open>
  Each helper works on a \<^verbatim>\<open>copy.deepcopy\<close> of its argument; values here are immutable, so
  the copy is the value itself. The right-hand side of an assignment is evaluated before
  its target.
\<close>

definition generate_message_key :: "(json \<Rightarrow> string) \<Rightarrow> json \<Rightarrow> string \<Rightarrow> error + json" where
  "generate_message_key str_of message action_id =
     (let new_message = message in
      bind_result (py_getitem message ''id'') (\<lambda>message_id.
      bind_result (py_setitem new_message ''key''
                     (JStr (action_id @ ''::'' @ py_format_s str_of message_id)))
        (\<lambda>new_message.
      py_delitem new_message ''id'')))"

text \<open>\<^verbatim>\<open>outer[k1][k2] = v\<close> on a dictionary of dictionaries.\<close>

definition py_setitem2 :: "json \<Rightarrow> string \<Rightarrow> string \<Rightarrow> json \<Rightarrow> error + json" where
  "py_setitem2 outer k1 k2 v =
     bind_result (py_getitem outer k1) (\<lambda>inner.
     bind_result (py_setitem inner k2 v) (\<lambda>inner.
     py_setitem outer k1 inner))"

definition generate_detail_block :: "json \<Rightarrow> error + json" where
  "generate_detail_block message =
     (let new_message = message;
          detail_block = JObj [(''remediation'', JObj [(''context'', JStr '''')]),
                               (''diagnosis'', JObj [(''context'', JStr '''')])] in
      bind_result (py_getitem new_message ''remediation'') (\<lambda>remediation.
      bind_result (py_setitem2 detail_block ''remediation'' ''context'' remediation)
        (\<lambda>detail_block.
      bind_result (py_getitem new_message ''diagnosis'') (\<lambda>diagnosis.
      bind_result (py_setitem2 detail_block ''diagnosis'' ''context'' diagnosis)
        (\<lambda>detail_block.
      bind_result (py_delitem new_message ''remediation'') (\<lambda>new_message.
      bind_result (py_delitem new_message ''diagnosis'') (\<lambda>new_message.
      py_setitem new_message ''detail'' detail_block)))))))"

definition rename_dictionary_key :: "json \<Rightarrow> string \<Rightarrow> string \<Rightarrow> error + json" where
  "rename_dictionary_key message new_key old_key =
     (let new_message = message in
      bind_result (py_pop new_message old_key) (\<lambda>(v, new_message).
      py_setitem new_message new_key v))"

definition apply_message_transform :: "(json \<Rightarrow> string) \<Rightarrow> json \<Rightarrow> string \<Rightarrow> error + json" where
  "apply_message_transform str_of message action_id =
     bind_result (generate_message_key str_of message action_id) (\<lambda>new_message.
     bind_result (rename_dictionary_key new_message ''severity'' ''level'') (\<lambda>new_message.
     bind_result (rename_dictionary_key new_message ''summary'' ''description'') (\<lambda>new_message.
     bind_result (generate_detail_block new_message) (\<lambda>new_message.
     py_setitem new_message ''modifiers'' (JArr [])))))"

text \<open>
  \<^verbatim>\<open>transform_raw_data\<close>: the outer loop over \<^verbatim>\<open>raw_data["actions"].items()\<close> and the inner
  loop over \<^verbatim>\<open>result["messages"]\<close>, both appending to \<^verbatim>\<open>new_data\<close>.
\<close>

fun transform_messages ::
  "(json \<Rightarrow> string) \<Rightarrow> string \<Rightarrow> json list \<Rightarrow> json list \<Rightarrow> error + json list" where
  "transform_messages str_of action_id [] new_data = Inr new_data"
| "transform_messages str_of action_id (message # rest) new_data =
     bind_result (apply_message_transform str_of message action_id) (\<lambda>entry.
     transform_messages str_of action_id rest (new_data @ [entry]))"

fun transform_actions ::
  "(json \<Rightarrow> string) \<Rightarrow> (string \<times> json) list \<Rightarrow> json list \<Rightarrow> error + json list" where
  "transform_actions str_of [] new_data = Inr new_data"
| "transform_actions str_of ((action_id, result) # rest) new_data =
     bind_result (py_getitem result ''messages'') (\<lambda>messages.
     bind_result (py_iter messages) (\<lambda>messages.
     bind_result (transform_messages str_of action_id messages new_data) (\<lambda>new_data.
     bind_result (py_getitem result ''result'') (\<lambda>own_result.
     bind_result (apply_message_transform str_of own_result action_id) (\<lambda>entry.
     transform_actions str_of rest (new_data @ [entry]))))))"

definition transform_raw_data :: "(json \<Rightarrow> string) \<Rightarrow> json \<Rightarrow> error + json list" where
  "transform_raw_data str_of raw_data =
     bind_result (py_getitem raw_data ''actions'') (\<lambda>actions.
     bind_result (py_items actions) (\<lambda>items.
     transform_actions str_of items []))"

section \<open>Output object\<close>

record OutputCollector =
  status :: json
  message :: string
  report :: string
  tasks_format_version :: string
  tasks_format_id :: string
  entries :: "json list option"
  report_json :: "json option"

text \<open>The constructor \<^verbatim>\<open>OutputCollector(status, message, report, entries)\<close>.\<close>

definition OutputCollector_init ::
  "json \<Rightarrow> string \<Rightarrow> string \<Rightarrow> json list option \<Rightarrow> OutputCollector" where
  "OutputCollector_init st msg rep ents =
     \<lparr>status = st, message = msg, report = rep, tasks_format_version = ''1.0'',
      tasks_format_id = ''oamg-format'', entries = ents, report_json = None\<rparr>"

text \<open>
  \<^verbatim>\<open>to_dict\<close> returns the dictionary to print and, as it assigns \<^verbatim>\<open>self.report_json\<close>,
  the object after the call. \<^verbatim>\<open>if self.entries:\<close> holds for a list with at least one
  element, and \<^verbatim>\<open>None\<close> is printed as \<^verbatim>\<open>null\<close>.
\<close>

definition to_dict :: "OutputCollector \<Rightarrow> json \<times> OutputCollector" where
  "to_dict self =
     (let self = (case entries self of
                    None \<Rightarrow> self
                  | Some [] \<Rightarrow> self
                  | Some (e # es) \<Rightarrow>
                      self\<lparr>report_json := Some (JObj
                         [(''tasks_format_version'', JStr (tasks_format_version self)),
                          (''tasks_format_id'', JStr (tasks_format_id self)),
                          (''entries'', JArr (e # es))])\<rparr>)
      in (JObj [(''status'', status self),
                (''message'', JStr (message self)),
                (''report'', JStr (report self)),
                (''report_json'', (case report_json self of None \<Rightarrow> JNull | Some j \<Rightarrow> j))],
          self))"

section \<open>Top level\<close>

text \<open>
  What the outside world does in one run: the outcome of each of the four calls that
  prepare and run the tool, the outcome of opening and decoding the JSON report, if the
  textual report exists, the outcome of opening and reading it, and the outcome of
  \<^verbatim>\<open>cleanup\<close>, which removes the files that the run downloaded.
\<close>

record world =
  verify_required_files_are_present :: "error + unit"
  setup_convert2rhel :: "error + unit"
  install_convert2rhel :: "error + unit"
  run_convert2rhel :: "error + unit"
  json_load_report :: "error + json"
  report_txt_file :: "(error + string) option"
  cleanup :: "error + unit"

definition gather_textual_report :: "world \<Rightarrow> error + string" where
  "gather_textual_report w =
     (let data = '''' in
      case report_txt_file w of None \<Rightarrow> Inr data | Some content \<Rightarrow> content)"

text \<open>\<^verbatim>\<open>xs[0]\<close>.\<close>

fun py_first :: "'a list \<Rightarrow> error + 'a" where
  "py_first [] = Inl IndexError"
| "py_first (x # xs) = Inr x"

text \<open>The body of the \<^verbatim>\<open>try\<close> statement of \<^verbatim>\<open>main\<close>.\<close>

definition main_try ::
  "(json \<Rightarrow> string) \<Rightarrow> world \<Rightarrow> OutputCollector \<Rightarrow> error + OutputCollector" where
  "main_try str_of w output =
     bind_result (verify_required_files_are_present w) (\<lambda>_.
     bind_result (setup_convert2rhel w) (\<lambda>_.
     bind_result (install_convert2rhel w) (\<lambda>_.
     bind_result (run_convert2rhel w) (\<lambda>_.
     bind_result (json_load_report w) (\<lambda>data.
     bind_result (py_getitem data ''actions'') (\<lambda>action_results.
     bind_result (collect_report_level action_results) (\<lambda>combined_levels.
     bind_result (py_first combined_levels) (\<lambda>first.
       let output = output\<lparr>status := first\<rparr> in
     bind_result (gather_textual_report w) (\<lambda>textual.
       let output = output\<lparr>report := textual\<rparr> in
     bind_result (py_first combined_levels) (\<lambda>first.
     bind_result (generate_report_message first) (\<lambda>msg.
       let output = output\<lparr>message := msg\<rparr> in
     bind_result (transform_raw_data str_of data) (\<lambda>new_data.
       Inr (output\<lparr>entries := Some new_data\<rparr>)))))))))))))"

text \<open>
  \<^verbatim>\<open>main\<close>: the \<^verbatim>\<open>try\<close> body, the two handlers and the \<^verbatim>\<open>finally\<close> block. The first handler
  reads the \<^verbatim>\<open>message\<close> attribute of a \<^verbatim>\<open>ProcessError\<close>; the second applies \<^verbatim>\<open>str()\<close> to the
  exception. A \<open>ProcessError\<close> and an exception of an external step carry their text; the
  text of an exception raised by the interpreter itself is taken as the parameter
  \<open>builtin_text\<close>.

  The \<^verbatim>\<open>finally\<close> block calls \<^verbatim>\<open>cleanup\<close> and then prints the dictionary of \<^verbatim>\<open>to_dict\<close>. No
  handler covers it: an exception of \<^verbatim>\<open>cleanup\<close> leaves \<^verbatim>\<open>main\<close> before anything is printed.
  The result of \<^verbatim>\<open>main\<close> is the exception that leaves it, or the dictionary it prints.
\<close>

fun str_exception :: "(error \<Rightarrow> string) \<Rightarrow> error \<Rightarrow> string" where
  "str_exception builtin_text (ProcessError msg) = msg"
| "str_exception builtin_text (Exception msg) = msg"
| "str_exception builtin_text e = builtin_text e"

definition main :: "(json \<Rightarrow> string) \<Rightarrow> (error \<Rightarrow> string) \<Rightarrow> world \<Rightarrow> error + json" where
  "main str_of builtin_text w =
     (let output = OutputCollector_init (JStr '''') '''' '''' None;
          output = (case main_try str_of w output of
                      Inr output \<Rightarrow> output
                    | Inl (ProcessError msg) \<Rightarrow>
                        OutputCollector_init (JStr ''ERROR'') '''' msg None
                    | Inl exception \<Rightarrow>
                        OutputCollector_init (JStr ''ERROR'') ''''
                          (str_exception builtin_text exception) None)
      in bind_result (cleanup w) (\<lambda>_. Inr (fst (to_dict output))))"

text \<open>A field of the dictionary that \<^verbatim>\<open>main\<close> prints.\<close>

definition printed_field :: "error + json \<Rightarrow> string \<Rightarrow> error + json" where
  "printed_field printed k = bind_result printed (\<lambda>out. py_getitem out k)"

section \<open>Raw reports of the data model\<close>

text \<open>
  A raw message is a dictionary whose fields \<^verbatim>\<open>id\<close>, \<^verbatim>\<open>level\<close>, \<^verbatim>\<open>description\<close>,
  \<^verbatim>\<open>remediation\<close> and \<^verbatim>\<open>diagnosis\<close> are strings (it may have further fields). An action
  result is a dictionary with a raw message under \<^verbatim>\<open>result\<close> and a list of raw messages
  under \<^verbatim>\<open>messages\<close>. A raw report maps each action id to one action result.
\<close>

fun is_str :: "json \<Rightarrow> bool" where
  "is_str (JStr s) = True"
| "is_str _ = False"

definition has_str_field :: "json \<Rightarrow> string \<Rightarrow> bool" where
  "has_str_field m k = (case py_getitem m k of Inl e \<Rightarrow> False | Inr v \<Rightarrow> is_str v)"

definition raw_message :: "json \<Rightarrow> bool" where
  "raw_message m =
     (has_str_field m ''id'' \<and> has_str_field m ''level'' \<and> has_str_field m ''description'' \<and>
      has_str_field m ''remediation'' \<and> has_str_field m ''diagnosis'')"

text \<open>The value stored under a key, as a list of at most one element.\<close>

definition field_values :: "json \<Rightarrow> string \<Rightarrow> json list" where
  "field_values obj k = (case py_getitem obj k of Inl e \<Rightarrow> [] | Inr v \<Rightarrow> [v])"

fun elements :: "json \<Rightarrow> json list" where
  "elements (JArr xs) = xs"
| "elements _ = []"

definition action_messages :: "json \<Rightarrow> json list" where
  "action_messages a = concat (map elements (field_values a ''messages''))"

definition action_own_result :: "json \<Rightarrow> json list" where
  "action_own_result a = field_values a ''result''"

definition raw_action_result :: "json \<Rightarrow> bool" where
  "raw_action_result a =
     (py_getitem a ''messages'' = Inr (JArr (action_messages a)) \<and>
      list_all raw_message (action_messages a) \<and>
      action_own_result a \<noteq> [] \<and> list_all raw_message (action_own_result a))"

definition raw_report :: "(string \<times> json) list \<Rightarrow> bool" where
  "raw_report actions =
     (distinct (map fst actions) \<and> list_all (\<lambda>item. raw_action_result (snd item)) actions)"

text \<open>Every \<^verbatim>\<open>result.level\<close> and every \<^verbatim>\<open>message.level\<close> of a report.\<close>

definition action_levels :: "json \<Rightarrow> json list" where
  "action_levels a =
     concat (map (\<lambda>m. field_values m ''level'') (action_own_result a @ action_messages a))"

definition report_levels :: "(string \<times> json) list \<Rightarrow> json list" where
  "report_levels actions = concat (map (\<lambda>item. action_levels (snd item)) actions)"

text \<open>The recognized severity names.\<close>

definition recognized :: "json \<Rightarrow> bool" where
  "recognized level = (status_code_contains level = Inr True)"

text \<open>
  The pairs of an action id and a message id of a report, the action's own result message
  counted as well.
\<close>

definition action_id_pairs :: "string \<times> json \<Rightarrow> (string \<times> json) list" where
  "action_id_pairs item =
     map (\<lambda>i. (fst item, i))
       (concat (map (\<lambda>m. field_values m ''id'')
          (action_messages (snd item) @ action_own_result (snd item))))"

definition report_id_pairs :: "(string \<times> json) list \<Rightarrow> (string \<times> json) list" where
  "report_id_pairs actions = concat (map action_id_pairs actions)"

text \<open>
  The entries the transformer is expected to emit for one action and for a report: the
  messages in their order, then the action's own result.
\<close>

definition action_entries :: "(json \<Rightarrow> string) \<Rightarrow> string \<times> json \<Rightarrow> (error + json) list" where
  "action_entries str_of item =
     map (\<lambda>m. apply_message_transform str_of m (fst item))
       (action_messages (snd item) @ action_own_result (snd item))"

definition report_entries ::
  "(json \<Rightarrow> string) \<Rightarrow> (string \<times> json) list \<Rightarrow> (error + json) list" where
  "report_entries str_of actions = concat (map (action_entries str_of) actions)"

text \<open>The closed form of one normalized entry.\<close>

definition entry_of ::
  "string \<Rightarrow> (string \<times> json) list \<Rightarrow> string \<Rightarrow> json \<Rightarrow> json \<Rightarrow> json \<Rightarrow> json \<Rightarrow>
   (string \<times> json) list" where
  "entry_of action_id kvs i l d r g =
     AList.update ''modifiers'' (JArr [])
       (AList.update ''detail''
          (JObj [(''remediation'', JObj [(''context'', r)]),
                 (''diagnosis'', JObj [(''context'', g)])])
          (AList.delete ''diagnosis'' (AList.delete ''remediation''
             (AList.update ''summary'' d (AList.delete ''description''
                (AList.update ''severity'' l (AList.delete ''level''
                   (AList.delete ''id''
                      (AList.update ''key'' (JStr (action_id @ ''::'' @ i)) kvs)))))))))"

text \<open>The \<^verbatim>\<open>key\<close> of every entry of a list.\<close>

definition entry_keys :: "json list \<Rightarrow> (error + json) list" where
  "entry_keys es = map (\<lambda>e. py_getitem e ''key'') es"

text \<open>A string without a colon, and a JSON string without a colon.\<close>

definition no_colon :: "string \<Rightarrow> bool" where
  "no_colon s = (CHR '':'' \<notin> set s)"

fun str_no_colon :: "json \<Rightarrow> bool" where
  "str_no_colon (JStr s) = no_colon s"
| "str_no_colon _ = False"

text \<open>The key that belongs to a pair of an action id and a message id.\<close>

definition key_of_pair :: "string \<times> json \<Rightarrow> error + json" where
  "key_of_pair p = (case snd p of JStr i \<Rightarrow> Inr (JStr (fst p @ ''::'' @ i)) | _ \<Rightarrow> Inl TypeError)"

text \<open>
  A run in which the tool was set up and ran, and left the report \<open>data\<close> and a textual
  report that can be read, if any.
\<close>


definition tool_ran :: "world \<Rightarrow> json \<Rightarrow> bool" where
  "tool_ran w data =
     (verify_required_files_are_present w = Inr () \<and> setup_convert2rhel w = Inr () \<and>
      install_convert2rhel w = Inr () \<and> run_convert2rhel w = Inr () \<and>
      json_load_report w = Inr data \<and>
      (case gather_textual_report w of Inl e \<Rightarrow> False | Inr textual \<Rightarrow> True))"

section \<open>Example inputs\<close>

text \<open>
  Stand-ins for the interpreter's \<^verbatim>\<open>str()\<close>, for evaluating the functions on concrete
  inputs.
\<close>

definition example_str_of :: "json \<Rightarrow> string" where
  "example_str_of v = ''<value>''"

fun example_builtin_text :: "error \<Rightarrow> string" where
  "example_builtin_text IndexError = ''list index out of range''"
| "example_builtin_text e = ''<text>''"

definition example_message :: "string \<Rightarrow> string \<Rightarrow> json" where
  "example_message i l =
     JObj [(''id'', JStr i), (''level'', JStr l), (''title'', JStr ''Title''),
           (''description'', JStr ''Description''), (''remediation'', JStr ''Remediation''),
           (''diagnosis'', JStr ''Diagnosis'')]"

text \<open>The two actions of the example of the specification.\<close>

definition example_actions :: "(string \<times> json) list" where
  "example_actions =
     [(''A1'', JObj [(''result'', example_message ''r'' ''SUCCESS''),
                     (''messages'', JArr [example_message ''m1'' ''WARNING''])]),
      (''A2'', JObj [(''result'', example_message ''r'' ''ERROR''),
                     (''messages'', JArr [])])]"

definition example_data :: json where
  "example_data = JObj [(''actions'', JObj example_actions)]"

text \<open>Two actions whose ids and message ids differ but concatenate to the same key.\<close>

definition colliding_actions :: "(string \<times> json) list" where
  "colliding_actions =
     [(''a'', JObj [(''result'', example_message ''b::c'' ''SUCCESS''),
                    (''messages'', JArr [])]),
      (''a::b'', JObj [(''result'', example_message ''c'' ''SUCCESS''),
                       (''messages'', JArr [])])]"

definition example_world :: "json \<Rightarrow> world" where
  "example_world data =
     \<lparr>verify_required_files_are_present = Inr (), setup_convert2rhel = Inr (),
      install_convert2rhel = Inr (), run_convert2rhel = Inr (),
      json_load_report = Inr data, report_txt_file = Some (Inr ''Textual report''),
      cleanup = Inr ()\<rparr>"


text \<open>A report whose levels are all unrecognized names.\<close>

definition unrecognized_actions :: "(string \<times> json) list" where
  "unrecognized_actions =
     [(''A1'', JObj [(''result'', example_message ''r'' ''FATAL''),
                     (''messages'', JArr [example_message ''m1'' ''warning''])])]"

section \<open>Basic facts\<close>

lemma bind_result_Inl [simp]: "bind_result (Inl e) f = Inl e"
  by (simp add: bind_result_def)

lemma bind_result_Inr [simp]: "bind_result (Inr x) f = f x"
  by (simp add: bind_result_def)

lemma status_code_warning: "status_code_getitem (JStr ''WARNING'') = Inr 51"
  by (simp add: STATUS_CODE_def)

lemma status_code_getitem_Some:
  "STATUS_CODE name = Some n \<Longrightarrow> status_code_getitem (JStr name) = Inr n"
  by simp

text \<open>
  Claim C8. For every recognized severity level, the human message is determined by the
  level's rank relative to the rank of WARNING (51), in exactly three bands: below it the
  "ready for conversion" sentence, equal to it the "can proceed, however, warnings"
  sentence, above it the "cannot proceed" sentence.
\<close>

theorem generate_report_message_bands:
  assumes "STATUS_CODE level = Some rank"
  shows "generate_report_message (JStr level) = Inr
           (if rank < 51 then ''No problems found. The system is ready for conversion.''
            else if rank = 51 then
              ''The conversion can proceed. However, there is one or more warnings about issues that might occur after the conversion.''
            else ''The conversion cannot proceed. You must resolve existing issues to perform the conversion.'')"
proof -
  have r: "status_code_getitem (JStr level) = Inr rank"
    using assms by simp
  show ?thesis
    unfolding generate_report_message_def r status_code_warning by simp
qed

theorem generate_report_message_bands_witness:
  "STATUS_CODE ''INFO'' = Some 25 \<and>
   generate_report_message (JStr ''INFO'') = Inr ''No problems found. The system is ready for conversion.''"
proof -
  have h: "STATUS_CODE ''INFO'' = Some 25" by (simp add: STATUS_CODE_def)
  show ?thesis using h generate_report_message_bands [OF h] by simp
qed

section \<open>The shape of a normalized entry\<close>

lemma is_str_iff: "is_str v \<longleftrightarrow> (\<exists>s. v = JStr s)"
  by (cases v) simp_all

lemma has_str_field_iff:
  "has_str_field m k \<longleftrightarrow> (\<exists>kvs s. m = JObj kvs \<and> map_of kvs k = Some (JStr s))"
  by (cases m) (auto simp: has_str_field_def is_str_iff split: option.splits)

lemma raw_message_dict:
  assumes "raw_message m"
  obtains kvs i l d r g where "m = JObj kvs"
    and "map_of kvs ''id'' = Some (JStr i)" and "map_of kvs ''level'' = Some (JStr l)"
    and "map_of kvs ''description'' = Some (JStr d)"
    and "map_of kvs ''remediation'' = Some (JStr r)"
    and "map_of kvs ''diagnosis'' = Some (JStr g)"
  using assms unfolding raw_message_def has_str_field_iff by auto

lemma generate_message_key_dict:
  assumes "map_of kvs ''id'' = Some i"
  shows "generate_message_key str_of (JObj kvs) action_id =
           Inr (JObj (AList.delete ''id''
             (AList.update ''key'' (JStr (action_id @ ''::'' @ py_format_s str_of i)) kvs)))"
  using assms by (simp add: generate_message_key_def update_conv')

lemma rename_dictionary_key_dict:
  assumes "map_of kvs old_key = Some v"
  shows "rename_dictionary_key (JObj kvs) new_key old_key =
           Inr (JObj (AList.update new_key v (AList.delete old_key kvs)))"
  using assms by (simp add: rename_dictionary_key_def)

lemma generate_detail_block_dict:
  assumes "map_of kvs ''remediation'' = Some r" and "map_of kvs ''diagnosis'' = Some g"
  shows "generate_detail_block (JObj kvs) =
           Inr (JObj (AList.update ''detail''
                  (JObj [(''remediation'', JObj [(''context'', r)]),
                         (''diagnosis'', JObj [(''context'', g)])])
                  (AList.delete ''diagnosis'' (AList.delete ''remediation'' kvs))))"
  using assms by (simp add: generate_detail_block_def py_setitem2_def delete_conv')

lemma apply_message_transform_dict:
  assumes "map_of kvs ''id'' = Some (JStr i)" and "map_of kvs ''level'' = Some l"
    and "map_of kvs ''description'' = Some d"
    and "map_of kvs ''remediation'' = Some r" and "map_of kvs ''diagnosis'' = Some g"
  shows "apply_message_transform str_of (JObj kvs) action_id =
           Inr (JObj (entry_of action_id kvs i l d r g))"
  unfolding apply_message_transform_def entry_of_def
  apply (subst generate_message_key_dict [OF assms(1)])
  apply simp
  apply (subst rename_dictionary_key_dict [where v = l])
   apply (simp add: update_conv' delete_conv' assms)
  apply simp
  apply (subst rename_dictionary_key_dict [where v = d])
   apply (simp add: update_conv' delete_conv' assms)
  apply simp
  apply (subst generate_detail_block_dict [where r = r and g = g])
    apply (simp add: update_conv' delete_conv' assms)
   apply (simp add: update_conv' delete_conv' assms)
  apply simp
  done

lemma map_of_entry_of:
  "map_of (entry_of action_id kvs i l d r g) =
     ((map_of kvs)(''key'' \<mapsto> JStr (action_id @ ''::'' @ i), ''id'' := None,
        ''level'' := None, ''severity'' \<mapsto> l, ''description'' := None, ''summary'' \<mapsto> d,
        ''remediation'' := None, ''diagnosis'' := None,
        ''detail'' \<mapsto> JObj [(''remediation'', JObj [(''context'', r)]),
                              (''diagnosis'', JObj [(''context'', g)])],
        ''modifiers'' \<mapsto> JArr []))"
  by (simp add: entry_of_def update_conv' delete_conv')

lemma distinct_entry_of:
  "distinct (map fst kvs) \<Longrightarrow> distinct (map fst (entry_of action_id kvs i l d r g))"
  by (simp add: entry_of_def distinct_update distinct_delete)

text \<open>
  Claim C6. For a raw message with the fields \<^verbatim>\<open>id\<close> (a string), \<^verbatim>\<open>level\<close>,
  \<^verbatim>\<open>description\<close>, \<^verbatim>\<open>remediation\<close> and \<^verbatim>\<open>diagnosis\<close> and any owning action id,
  \<^verbatim>\<open>apply_message_transform\<close> returns an entry whose \<^verbatim>\<open>key\<close> is the action id, \<^verbatim>\<open>::\<close> and
  the message id, and which has no \<^verbatim>\<open>id\<close>; \<^verbatim>\<open>level\<close> is renamed to \<^verbatim>\<open>severity\<close> and
  \<^verbatim>\<open>description\<close> to \<^verbatim>\<open>summary\<close>, the values unchanged; \<^verbatim>\<open>remediation\<close> and \<^verbatim>\<open>diagnosis\<close>
  are replaced by the nested \<^verbatim>\<open>detail\<close> object; \<^verbatim>\<open>modifiers\<close> is an empty sequence. Every
  other field is kept as it is, and the keys of the entry stay distinct.
\<close>

theorem apply_message_transform_shape:
  assumes "map_of kvs ''id'' = Some (JStr message_id)"
    and "map_of kvs ''level'' = Some level"
    and "map_of kvs ''description'' = Some description"
    and "map_of kvs ''remediation'' = Some remediation"
    and "map_of kvs ''diagnosis'' = Some diagnosis"
  shows "\<exists>entry. apply_message_transform str_of (JObj kvs) action_id = Inr (JObj entry) \<and>
           map_of entry ''key'' = Some (JStr (action_id @ ''::'' @ message_id)) \<and>
           map_of entry ''id'' = None \<and>
           map_of entry ''severity'' = Some level \<and> map_of entry ''level'' = None \<and>
           map_of entry ''summary'' = Some description \<and> map_of entry ''description'' = None \<and>
           map_of entry ''detail'' =
             Some (JObj [(''remediation'', JObj [(''context'', remediation)]),
                         (''diagnosis'', JObj [(''context'', diagnosis)])]) \<and>
           map_of entry ''remediation'' = None \<and> map_of entry ''diagnosis'' = None \<and>
           map_of entry ''modifiers'' = Some (JArr []) \<and>
           (\<forall>k. k \<notin> {''key'', ''id'', ''severity'', ''level'', ''summary'', ''description'',
                       ''detail'', ''remediation'', ''diagnosis'', ''modifiers''} \<longrightarrow>
                map_of entry k = map_of kvs k) \<and>
           (distinct (map fst kvs) \<longrightarrow> distinct (map fst entry))"
proof -
  let ?entry = "entry_of action_id kvs message_id level description remediation diagnosis"
  have "apply_message_transform str_of (JObj kvs) action_id = Inr (JObj ?entry)"
    using assms by (rule apply_message_transform_dict)
  moreover have "map_of ?entry ''key'' = Some (JStr (action_id @ ''::'' @ message_id))"
    and "map_of ?entry ''id'' = None"
    and "map_of ?entry ''severity'' = Some level" and "map_of ?entry ''level'' = None"
    and "map_of ?entry ''summary'' = Some description" and "map_of ?entry ''description'' = None"
    and "map_of ?entry ''detail'' =
             Some (JObj [(''remediation'', JObj [(''context'', remediation)]),
                         (''diagnosis'', JObj [(''context'', diagnosis)])])"
    and "map_of ?entry ''remediation'' = None" and "map_of ?entry ''diagnosis'' = None"
    and "map_of ?entry ''modifiers'' = Some (JArr [])"
    by (simp_all add: map_of_entry_of)
  moreover have "\<forall>k. k \<notin> {''key'', ''id'', ''severity'', ''level'', ''summary'', ''description'',
                       ''detail'', ''remediation'', ''diagnosis'', ''modifiers''} \<longrightarrow>
                map_of ?entry k = map_of kvs k"
    by (simp add: map_of_entry_of)
  moreover have "distinct (map fst kvs) \<longrightarrow> distinct (map fst ?entry)"
    by (simp add: distinct_entry_of)
  ultimately show ?thesis by blast
qed

theorem apply_message_transform_shape_witness:
  "map_of [(''id'', JStr ''m1''), (''level'', JStr ''WARNING''), (''description'', JStr ''d''),
           (''remediation'', JStr ''r''), (''diagnosis'', JStr ''g'')] ''id'' = Some (JStr ''m1'') \<and>
   (\<exists>entry. apply_message_transform example_str_of
       (JObj [(''id'', JStr ''m1''), (''level'', JStr ''WARNING''), (''description'', JStr ''d''),
              (''remediation'', JStr ''r''), (''diagnosis'', JStr ''g'')]) ''A1'' = Inr (JObj entry) \<and>
      map_of entry ''key'' = Some (JStr ''A1::m1'') \<and>
      map_of entry ''severity'' = Some (JStr ''WARNING'') \<and>
      map_of entry ''id'' = None)"
proof -
  let ?kvs = "[(''id'', JStr ''m1''), (''level'', JStr ''WARNING''), (''description'', JStr ''d''),
               (''remediation'', JStr ''r''), (''diagnosis'', JStr ''g'')]"
  have h1: "map_of ?kvs ''id'' = Some (JStr ''m1'')"
    and h2: "map_of ?kvs ''level'' = Some (JStr ''WARNING'')"
    and h3: "map_of ?kvs ''description'' = Some (JStr ''d'')"
    and h4: "map_of ?kvs ''remediation'' = Some (JStr ''r'')"
    and h5: "map_of ?kvs ''diagnosis'' = Some (JStr ''g'')"
    by simp_all
  from apply_message_transform_shape [OF h1 h2 h3 h4 h5, of example_str_of "''A1''"]
  obtain entry where
    "apply_message_transform example_str_of (JObj ?kvs) ''A1'' = Inr (JObj entry)"
    "map_of entry ''key'' = Some (JStr (''A1'' @ ''::'' @ ''m1''))"
    "map_of entry ''severity'' = Some (JStr ''WARNING'')"
    "map_of entry ''id'' = None"
    by blast
  then show ?thesis using h1 by auto
qed

section \<open>The printed dictionary and the handlers of the top level\<close>

lemma to_dict_init:
  "fst (to_dict (OutputCollector_init st msg rep ents)) =
     JObj [(''status'', st), (''message'', JStr msg), (''report'', JStr rep),
           (''report_json'',
              (case ents of None \<Rightarrow> JNull | Some [] \<Rightarrow> JNull
               | Some (e # es) \<Rightarrow>
                   JObj [(''tasks_format_version'', JStr ''1.0''),
                         (''tasks_format_id'', JStr ''oamg-format''),
                         (''entries'', JArr (e # es))]))]"
  by (simp add: to_dict_def OutputCollector_init_def split: option.splits list.splits)

text \<open>
  Claim C7. In the dictionary that \<^verbatim>\<open>to_dict\<close> returns for an object made by the
  constructor (with any status, message, report and entries, as \<^verbatim>\<open>main\<close> assigns them),
  \<^verbatim>\<open>report_json\<close> is different from \<^verbatim>\<open>null\<close> if and only if the entries are a non-empty list,
  and it then has the three fields \<^verbatim>\<open>tasks_format_version\<close> = "1.0",
  \<^verbatim>\<open>tasks_format_id\<close> = "oamg-format" and \<^verbatim>\<open>entries\<close>.
\<close>

theorem report_json_iff_entries:
  "(py_getitem (fst (to_dict (OutputCollector_init st msg rep ents))) ''report_json'' \<noteq> Inr JNull
      \<longleftrightarrow> (\<exists>es. ents = Some es \<and> es \<noteq> [])) \<and>
   (\<forall>es. ents = Some es \<and> es \<noteq> [] \<longrightarrow>
      py_getitem (fst (to_dict (OutputCollector_init st msg rep ents))) ''report_json'' =
        Inr (JObj [(''tasks_format_version'', JStr ''1.0''),
                   (''tasks_format_id'', JStr ''oamg-format''),
                   (''entries'', JArr es)]))"
  by (simp add: to_dict_init split: option.splits list.splits)

theorem report_json_iff_entries_witness:
  "py_getitem (fst (to_dict (OutputCollector_init (JStr ''INFO'') ''m'' ''r''
      (Some [JStr ''non-empty'']))))  ''report_json'' =
        Inr (JObj [(''tasks_format_version'', JStr ''1.0''),
                   (''tasks_format_id'', JStr ''oamg-format''),
                   (''entries'', JArr [JStr ''non-empty''])])"
  using report_json_iff_entries [of "JStr ''INFO''" "''m''" "''r''" "Some [JStr ''non-empty'']"]
  by simp



lemma main_failure:
  assumes "main_try str_of w (OutputCollector_init (JStr '''') '''' '''' None) = Inl e"
  shows "main str_of builtin_text w =
           bind_result (cleanup w) (\<lambda>_. Inr
             (JObj [(''status'', JStr ''ERROR''), (''message'', JStr ''''),
                    (''report'', JStr (str_exception builtin_text e)),
                    (''report_json'', JNull)]))"
  using assms by (cases e) (simp_all add: main_def to_dict_init)


lemma example_cleanup: "cleanup (example_world data) = Inr ()"
  by (simp add: example_world_def)






lemma example_setup_fails:
  "main_try example_str_of
     ((example_world JNull)\<lparr>setup_convert2rhel := Inl (Exception ''urlopen error'')\<rparr>)
     (OutputCollector_init (JStr '''') '''' '''' None) =
   Inl (Exception ''urlopen error'')"
  by (simp add: main_try_def example_world_def)

lemma example_setup_cleanup:
  "cleanup ((example_world JNull)\<lparr>setup_convert2rhel := Inl (Exception ''urlopen error'')\<rparr>) =
     Inr ()"
  by (simp add: example_world_def)

text \<open>
  Claim C3 says that the text of an unexpected failure is placed in the \<^verbatim>\<open>message\<close> field.
  The handler passes it as \<^verbatim>\<open>report\<close>: when the download fails with the text
  "urlopen error", the \<^verbatim>\<open>message\<close> field of the printed dictionary is the empty string and
  not that text.
\<close>

theorem unexpected_failure_message_counterexample:
  "main_try example_str_of
     ((example_world JNull)\<lparr>setup_convert2rhel := Inl (Exception ''urlopen error'')\<rparr>)
     (OutputCollector_init (JStr '''') '''' '''' None) = Inl (Exception ''urlopen error'') \<and>
   str_exception example_builtin_text (Exception ''urlopen error'') = ''urlopen error'' \<and>
   printed_field (main example_str_of example_builtin_text
     ((example_world JNull)\<lparr>setup_convert2rhel := Inl (Exception ''urlopen error'')\<rparr>))
     ''message'' = Inr (JStr '''') \<and>
   printed_field (main example_str_of example_builtin_text
     ((example_world JNull)\<lparr>setup_convert2rhel := Inl (Exception ''urlopen error'')\<rparr>))
     ''message'' \<noteq> Inr (JStr ''urlopen error'')"
  by (simp add: main_failure [OF example_setup_fails] example_setup_fails example_setup_cleanup
      printed_field_def)

text \<open>
  Claim C3, amended. The text of every failure that is not a \<^verbatim>\<open>ProcessError\<close> is placed in
  the \<^verbatim>\<open>report\<close> field of the dictionary that \<^verbatim>\<open>main\<close> prints once \<^verbatim>\<open>cleanup\<close> has completed,
  and the \<^verbatim>\<open>message\<close> field is the empty string.
\<close>

theorem unexpected_failure_goes_to_report:
  assumes "main_try str_of w (OutputCollector_init (JStr '''') '''' '''' None) = Inl e"
    and "\<forall>msg. e \<noteq> ProcessError msg"
  shows "\<exists>out. main str_of builtin_text w = bind_result (cleanup w) (\<lambda>_. Inr out) \<and>
           py_getitem out ''report'' = Inr (JStr (str_exception builtin_text e)) \<and>
           py_getitem out ''message'' = Inr (JStr '''')"
proof -
  let ?out = "JObj [(''status'', JStr ''ERROR''), (''message'', JStr ''''),
                    (''report'', JStr (str_exception builtin_text e)),
                    (''report_json'', JNull)]"
  have "main str_of builtin_text w = bind_result (cleanup w) (\<lambda>_. Inr ?out)"
    using assms(1) by (rule main_failure)
  moreover have "py_getitem ?out ''report'' = Inr (JStr (str_exception builtin_text e))"
    and "py_getitem ?out ''message'' = Inr (JStr '''')"
    by simp_all
  ultimately show ?thesis by blast
qed

theorem unexpected_failure_goes_to_report_witness:
  "printed_field (main example_str_of example_builtin_text
     ((example_world JNull)\<lparr>setup_convert2rhel := Inl (Exception ''urlopen error'')\<rparr>))
     ''report'' = Inr (JStr ''urlopen error'') \<and>
   printed_field (main example_str_of example_builtin_text
     ((example_world JNull)\<lparr>setup_convert2rhel := Inl (Exception ''urlopen error'')\<rparr>))
     ''message'' = Inr (JStr '''')"
proof -
  have h: "\<forall>msg. Exception ''urlopen error'' \<noteq> ProcessError msg" by simp
  from unexpected_failure_goes_to_report [OF example_setup_fails h, of example_builtin_text]
  show ?thesis by (auto simp: example_setup_cleanup printed_field_def)
qed

lemma main_try_empty_levels:
  assumes "tool_ran w data" and "py_getitem data ''actions'' = Inr action_results"
    and "collect_report_level action_results = Inr []"
  shows "main_try str_of w output = Inl IndexError"
  using assms by (simp add: main_try_def tool_ran_def)

lemma example_tool_ran: "tool_ran (example_world data) data"
  by (simp add: tool_ran_def example_world_def gather_textual_report_def)

section \<open>Entries of a whole report\<close>

lemma raw_message_transform:
  assumes "raw_message m"
  shows "\<exists>e. apply_message_transform str_of m action_id = Inr e"
proof -
  from assms obtain kvs i l d r g where "m = JObj kvs"
    and "map_of kvs ''id'' = Some (JStr i)" and "map_of kvs ''level'' = Some (JStr l)"
    and "map_of kvs ''description'' = Some (JStr d)"
    and "map_of kvs ''remediation'' = Some (JStr r)"
    and "map_of kvs ''diagnosis'' = Some (JStr g)"
    by (rule raw_message_dict)
  then show ?thesis by (simp add: apply_message_transform_dict)
qed

lemma transform_messages_entries:
  assumes "list_all raw_message ms"
  shows "\<exists>es. transform_messages str_of action_id ms new_data = Inr (new_data @ es) \<and>
              map Inr es = map (\<lambda>m. apply_message_transform str_of m action_id) ms"
  using assms
proof (induction ms arbitrary: new_data)
  case Nil
  then show ?case by simp
next
  case (Cons m ms)
  from Cons.prems have "raw_message m" and rest: "list_all raw_message ms" by simp_all
  then obtain e where e: "apply_message_transform str_of m action_id = Inr e"
    using raw_message_transform by blast
  from Cons.IH [OF rest, of "new_data @ [e]"] obtain es where
    es: "transform_messages str_of action_id ms (new_data @ [e]) = Inr ((new_data @ [e]) @ es)"
      "map Inr es = map (\<lambda>m. apply_message_transform str_of m action_id) ms"
    by blast
  have "transform_messages str_of action_id (m # ms) new_data = Inr (new_data @ (e # es))"
    using e es(1) by simp
  moreover have "map Inr (e # es) = map (\<lambda>m. apply_message_transform str_of m action_id) (m # ms)"
    using e es(2) by simp
  ultimately show ?case by blast
qed

lemma raw_action_result_fields:
  assumes "raw_action_result a"
  obtains r where "py_getitem a ''messages'' = Inr (JArr (action_messages a))"
    and "list_all raw_message (action_messages a)"
    and "py_getitem a ''result'' = Inr r" and "action_own_result a = [r]" and "raw_message r"
proof -
  from assms have m: "py_getitem a ''messages'' = Inr (JArr (action_messages a))"
    and ms: "list_all raw_message (action_messages a)"
    and ne: "action_own_result a \<noteq> []" and own: "list_all raw_message (action_own_result a)"
    by (simp_all add: raw_action_result_def)
  from ne obtain r where r: "py_getitem a ''result'' = Inr r" and o: "action_own_result a = [r]"
    by (cases "py_getitem a ''result''") (simp_all add: action_own_result_def field_values_def)
  from own o have "raw_message r" by simp
  with m ms r o that show thesis by blast
qed

lemma transform_actions_entries:
  assumes "list_all (\<lambda>item. raw_action_result (snd item)) actions"
  shows "\<exists>es. transform_actions str_of actions new_data = Inr (new_data @ es) \<and>
              map Inr es = report_entries str_of actions"
  using assms
proof (induction actions arbitrary: new_data)
  case Nil
  then show ?case by (simp add: report_entries_def)
next
  case (Cons item actions)
  obtain action_id a where item: "item = (action_id, a)" by (cases item)
  from Cons.prems item have a: "raw_action_result a"
    and rest: "list_all (\<lambda>item. raw_action_result (snd item)) actions" by simp_all
  from a obtain r where m: "py_getitem a ''messages'' = Inr (JArr (action_messages a))"
    and ms: "list_all raw_message (action_messages a)"
    and r: "py_getitem a ''result'' = Inr r" and o: "action_own_result a = [r]"
    and rm: "raw_message r"
    by (rule raw_action_result_fields)
  from transform_messages_entries [OF ms, of str_of action_id new_data] obtain es1 where
    es1: "transform_messages str_of action_id (action_messages a) new_data = Inr (new_data @ es1)"
      "map Inr es1 = map (\<lambda>m. apply_message_transform str_of m action_id) (action_messages a)"
    by blast
  from rm obtain e where e: "apply_message_transform str_of r action_id = Inr e"
    using raw_message_transform by blast
  from Cons.IH [OF rest, of "(new_data @ es1) @ [e]"] obtain es2 where
    es2: "transform_actions str_of actions ((new_data @ es1) @ [e]) =
            Inr (((new_data @ es1) @ [e]) @ es2)"
      "map Inr es2 = report_entries str_of actions"
    by blast
  have "transform_actions str_of (item # actions) new_data = Inr (new_data @ (es1 @ e # es2))"
    using item m es1(1) r e es2(1) by simp
  moreover have "map Inr (es1 @ e # es2) = report_entries str_of (item # actions)"
    using item es1(2) e es2(2) o by (simp add: report_entries_def action_entries_def)
  ultimately show ?case by blast
qed

lemma transform_raw_data_entries:
  assumes "py_getitem raw_data ''actions'' = Inr (JObj actions)" and "raw_report actions"
  shows "\<exists>es. transform_raw_data str_of raw_data = Inr es \<and>
              map Inr es = report_entries str_of actions"
proof -
  from assms(2) have "list_all (\<lambda>item. raw_action_result (snd item)) actions"
    by (simp add: raw_report_def)
  from transform_actions_entries [OF this, of str_of "[]"] assms(1)
  show ?thesis by (simp add: transform_raw_data_def)
qed

lemma length_report_entries:
  "length (report_entries str_of actions) =
     (\<Sum>item\<leftarrow>actions. length (action_messages (snd item)) + length (action_own_result (snd item)))"
  by (simp add: report_entries_def action_entries_def length_concat comp_def)

lemma raw_own_result_length: "raw_action_result a \<Longrightarrow> length (action_own_result a) = 1"
  by (erule raw_action_result_fields) simp

lemma example_raw: "raw_report example_actions"
  by code_simp

lemma example_data_actions: "py_getitem example_data ''actions'' = Inr (JObj example_actions)"
  by (simp add: example_data_def)

text \<open>
  Claim C10. For every raw report, \<^verbatim>\<open>transform_raw_data\<close> returns the entries grouped by
  action in the iteration order of the mapping; within an action the transformed messages
  come first, in the order of the \<^verbatim>\<open>messages\<close> list, and the entry transformed from the
  action's own \<^verbatim>\<open>result\<close> comes last.
\<close>

theorem transform_raw_data_order:
  assumes "py_getitem raw_data ''actions'' = Inr (JObj actions)" and "raw_report actions"
  shows "\<exists>es. transform_raw_data str_of raw_data = Inr es \<and>
              map Inr es =
                concat (map (\<lambda>item.
                  map (\<lambda>m. apply_message_transform str_of m (fst item))
                    (action_messages (snd item)) @
                  map (\<lambda>r. apply_message_transform str_of r (fst item))
                    (action_own_result (snd item))) actions)"
proof -
  have "action_entries str_of =
          (\<lambda>item. map (\<lambda>m. apply_message_transform str_of m (fst item))
                     (action_messages (snd item)) @
                   map (\<lambda>r. apply_message_transform str_of r (fst item))
                     (action_own_result (snd item)))"
    by (rule ext) (simp add: action_entries_def)
  with transform_raw_data_entries [OF assms, of str_of] show ?thesis
    by (simp add: report_entries_def)
qed

theorem transform_raw_data_order_witness:
  "raw_report example_actions \<and>
   (\<exists>es. transform_raw_data example_str_of example_data = Inr es \<and>
      entry_keys es = [Inr (JStr ''A1::m1''), Inr (JStr ''A1::r''), Inr (JStr ''A2::r'')])"
proof -
  from transform_raw_data_order [OF example_data_actions example_raw, of example_str_of]
  obtain es where es: "transform_raw_data example_str_of example_data = Inr es"
    and m: "map Inr es =
                concat (map (\<lambda>item.
                  map (\<lambda>m. apply_message_transform example_str_of m (fst item))
                    (action_messages (snd item)) @
                  map (\<lambda>r. apply_message_transform example_str_of r (fst item))
                    (action_own_result (snd item))) example_actions)"
    by blast
  have "entry_keys es = map (\<lambda>x. bind_result x (\<lambda>e. py_getitem e ''key'')) (map Inr es)"
    by (simp add: entry_keys_def comp_def)
  also have "\<dots> = [Inr (JStr ''A1::m1''), Inr (JStr ''A1::r''), Inr (JStr ''A2::r'')]"
    unfolding m by code_simp
  finally show ?thesis using es example_raw by blast
qed

text \<open>
  Claim C5. For every raw report, the number of entries that \<^verbatim>\<open>transform_raw_data\<close> returns
  is the sum over the actions of one plus the number of messages of the action (also for a
  report without actions, where both are zero).
\<close>

theorem transform_raw_data_count:
  assumes "py_getitem raw_data ''actions'' = Inr (JObj actions)" and "raw_report actions"
  shows "\<exists>es. transform_raw_data str_of raw_data = Inr es \<and>
              length es = (\<Sum>item\<leftarrow>actions. 1 + length (action_messages (snd item)))"
proof -
  from transform_raw_data_entries [OF assms, of str_of] obtain es where
    es: "transform_raw_data str_of raw_data = Inr es" "map Inr es = report_entries str_of actions"
    by blast
  have "length es = length (map (Inr :: json \<Rightarrow> error + json) es)" by simp
  also have "\<dots> = length (report_entries str_of actions)" using es(2) by simp
  also have "\<dots> = (\<Sum>item\<leftarrow>actions. length (action_messages (snd item)) + length (action_own_result (snd item)))"
    by (rule length_report_entries)
  also have "\<dots> = (\<Sum>item\<leftarrow>actions. 1 + length (action_messages (snd item)))"
  proof (rule arg_cong [where f = sum_list], rule map_cong [OF refl])
    fix item assume "item \<in> set actions"
    with assms(2) have "raw_action_result (snd item)"
      by (auto simp: raw_report_def list_all_iff)
    then show "length (action_messages (snd item)) + length (action_own_result (snd item)) =
               1 + length (action_messages (snd item))"
      by (simp add: raw_own_result_length)
  qed
  finally show ?thesis using es(1) by blast
qed

theorem transform_raw_data_count_witness:
  "raw_report example_actions \<and>
   (\<exists>es. transform_raw_data example_str_of example_data = Inr es \<and> length es = 3)"
proof -
  have "(\<Sum>item\<leftarrow>example_actions. 1 + length (action_messages (snd item))) = 3"
    by code_simp
  with transform_raw_data_count [OF example_data_actions example_raw, of example_str_of]
    example_raw
  show ?thesis by simp
qed

section \<open>Keys of the entries\<close>

lemma raw_message_key:
  assumes "raw_message m"
  shows "\<exists>i. field_values m ''id'' = [JStr i] \<and>
             bind_result (apply_message_transform str_of m action_id) (\<lambda>e. py_getitem e ''key'') =
               Inr (JStr (action_id @ ''::'' @ i))"
proof -
  from assms obtain kvs i l d r g where m: "m = JObj kvs"
    and f: "map_of kvs ''id'' = Some (JStr i)" "map_of kvs ''level'' = Some (JStr l)"
      "map_of kvs ''description'' = Some (JStr d)"
      "map_of kvs ''remediation'' = Some (JStr r)"
      "map_of kvs ''diagnosis'' = Some (JStr g)"
    by (rule raw_message_dict)
  have "field_values m ''id'' = [JStr i]"
    using m f(1) by (simp add: field_values_def)
  moreover have "bind_result (apply_message_transform str_of m action_id)
                   (\<lambda>e. py_getitem e ''key'') = Inr (JStr (action_id @ ''::'' @ i))"
    using m f by (simp add: apply_message_transform_dict map_of_entry_of)
  ultimately show ?thesis by blast
qed

lemma raw_messages_keys:
  assumes "list_all raw_message ms"
  shows "map (\<lambda>m. bind_result (apply_message_transform str_of m action_id)
                    (\<lambda>e. py_getitem e ''key'')) ms =
         map (\<lambda>i. key_of_pair (action_id, i)) (concat (map (\<lambda>m. field_values m ''id'') ms))"
  using assms
proof (induction ms)
  case Nil
  then show ?case by simp
next
  case (Cons m ms)
  from Cons.prems have "raw_message m" by simp
  from raw_message_key [OF this, of str_of action_id] obtain i where
    "field_values m ''id'' = [JStr i]"
    "bind_result (apply_message_transform str_of m action_id) (\<lambda>e. py_getitem e ''key'') =
       Inr (JStr (action_id @ ''::'' @ i))"
    by blast
  with Cons show ?case by (simp add: key_of_pair_def)
qed

lemma raw_messages_ids_str:
  assumes "list_all raw_message ms"
  shows "list_all is_str (concat (map (\<lambda>m. field_values m ''id'') ms))"
  using assms
proof (induction ms)
  case Nil
  then show ?case by simp
next
  case (Cons m ms)
  from Cons.prems have "raw_message m" by simp
  from raw_message_key [OF this] obtain i where
    "field_values m ''id'' = [JStr i]" by blast
  with Cons show ?case by simp
qed

lemma raw_action_all_messages:
  assumes "raw_action_result a"
  shows "list_all raw_message (action_messages a @ action_own_result a)"
  using assms by (simp add: raw_action_result_def)

lemma report_entries_keys:
  assumes "list_all (\<lambda>item. raw_action_result (snd item)) actions"
  shows "map (\<lambda>x. bind_result x (\<lambda>e. py_getitem e ''key'')) (report_entries str_of actions) =
         map key_of_pair (report_id_pairs actions)"
  using assms
proof (induction actions)
  case Nil
  then show ?case by (simp add: report_entries_def report_id_pairs_def)
next
  case (Cons item actions)
  from Cons.prems have a: "raw_action_result (snd item)" by simp
  have "map (\<lambda>x. bind_result x (\<lambda>e. py_getitem e ''key'')) (action_entries str_of item) =
        map key_of_pair (action_id_pairs item)"
    using raw_messages_keys [OF raw_action_all_messages [OF a], of str_of "fst item"]
    by (simp add: action_entries_def action_id_pairs_def comp_def)
  with Cons show ?case by (simp add: report_entries_def report_id_pairs_def)
qed

lemma report_id_pairs_raw:
  assumes "list_all (\<lambda>item. raw_action_result (snd item)) actions"
    and "p \<in> set (report_id_pairs actions)"
  shows "fst p \<in> fst ` set actions \<and> is_str (snd p)"
proof -
  from assms(2) obtain item where item: "item \<in> set actions" and p: "p \<in> set (action_id_pairs item)"
    by (auto simp: report_id_pairs_def)
  from assms(1) item have "raw_action_result (snd item)" by (simp add: list_all_iff)
  from raw_messages_ids_str [OF raw_action_all_messages [OF this]] p
  have "is_str (snd p)" and "fst p = fst item"
    by (auto simp: action_id_pairs_def list_all_iff)
  with item show ?thesis by auto
qed

lemma split_at_first:
  assumes "x \<notin> set xs" and "x \<notin> set xs'" and "xs @ x # ys = xs' @ x # ys'"
  shows "xs = xs' \<and> ys = ys'"
  using assms
proof (induction xs arbitrary: xs')
  case Nil
  then show ?case by (cases xs') auto
next
  case (Cons a xs)
  then show ?case by (cases xs') auto
qed

lemma key_left_unique:
  assumes "no_colon a1" and "no_colon a2" and "a1 @ ''::'' @ i1 = a2 @ ''::'' @ i2"
  shows "a1 = a2 \<and> i1 = i2"
proof -
  have "CHR '':'' \<notin> set a1" and "CHR '':'' \<notin> set a2"
    using assms(1,2) by (simp_all add: no_colon_def)
  moreover have "a1 @ CHR '':'' # (CHR '':'' # i1) = a2 @ CHR '':'' # (CHR '':'' # i2)"
    using assms(3) by simp
  ultimately have "a1 = a2 \<and> CHR '':'' # i1 = CHR '':'' # i2"
    by (rule split_at_first)
  then show ?thesis by simp
qed

lemma key_right_unique:
  assumes "no_colon i1" and "no_colon i2" and "a1 @ ''::'' @ i1 = a2 @ ''::'' @ i2"
  shows "a1 = a2 \<and> i1 = i2"
proof -
  from assms(3) have "rev (a1 @ ''::'' @ i1) = rev (a2 @ ''::'' @ i2)" by simp
  then have "rev i1 @ CHR '':'' # (CHR '':'' # rev a1) = rev i2 @ CHR '':'' # (CHR '':'' # rev a2)"
    by simp
  moreover have "CHR '':'' \<notin> set (rev i1)" and "CHR '':'' \<notin> set (rev i2)"
    using assms(1,2) by (simp_all add: no_colon_def)
  ultimately have "rev i1 = rev i2 \<and> CHR '':'' # rev a1 = CHR '':'' # rev a2"
    using split_at_first [of "CHR '':''" "rev i1" "rev i2" "CHR '':'' # rev a1" "CHR '':'' # rev a2"]
    by blast
  then show ?thesis by simp
qed

lemma key_of_pair_inj:
  assumes raw: "list_all (\<lambda>item. raw_action_result (snd item)) actions"
    and sep: "list_all (\<lambda>item. no_colon (fst item)) actions \<or>
              list_all (\<lambda>p. str_no_colon (snd p)) (report_id_pairs actions)"
  shows "inj_on key_of_pair (set (report_id_pairs actions))"
proof (rule inj_onI)
  fix p q
  assume p: "p \<in> set (report_id_pairs actions)" and q: "q \<in> set (report_id_pairs actions)"
    and eq: "key_of_pair p = key_of_pair q"
  from report_id_pairs_raw [OF raw p] obtain i where pa: "fst p \<in> fst ` set actions"
    and pi: "snd p = JStr i" by (auto simp: is_str_iff)
  from report_id_pairs_raw [OF raw q] obtain j where qa: "fst q \<in> fst ` set actions"
    and qj: "snd q = JStr j" by (auto simp: is_str_iff)
  from eq pi qj have cat: "fst p @ ''::'' @ i = fst q @ ''::'' @ j"
    by (simp add: key_of_pair_def)
  from sep have "fst p = fst q \<and> i = j"
  proof
    assume "list_all (\<lambda>item. no_colon (fst item)) actions"
    with pa qa have "no_colon (fst p)" and "no_colon (fst q)"
      by (auto simp: list_all_iff)
    then show ?thesis using cat by (rule key_left_unique)
  next
    assume "list_all (\<lambda>p. str_no_colon (snd p)) (report_id_pairs actions)"
    with p q pi qj have "no_colon i" and "no_colon j"
      by (auto simp: list_all_iff)
    then show ?thesis using cat by (rule key_right_unique)
  qed
  with pi qj show "p = q" by (simp add: prod_eq_iff)
qed

text \<open>
  Claim C9 says that distinct pairs of action id and message id give distinct keys. The key
  joins the two ids with \<^verbatim>\<open>::\<close> and nothing keeps an id from containing colons: the pair of
  action \<^verbatim>\<open>a\<close> and message \<^verbatim>\<open>b::c\<close> and the pair of action \<^verbatim>\<open>a::b\<close> and message \<^verbatim>\<open>c\<close> are
  distinct, and both entries get the key \<^verbatim>\<open>a::b::c\<close>.
\<close>

theorem keys_collide_counterexample:
  "raw_report colliding_actions \<and> distinct (report_id_pairs colliding_actions) \<and>
   map_sum id entry_keys
     (transform_raw_data example_str_of (JObj [(''actions'', JObj colliding_actions)])) =
     Inr [Inr (JStr ''a::b::c''), Inr (JStr ''a::b::c'')]"
  by code_simp

text \<open>
  Claim C9, amended. For every raw report whose pairs of action id and message id (the
  action's own result message counted) are pairwise distinct, and in which no action id
  contains a colon or no message id contains a colon, no two entries that
  \<^verbatim>\<open>transform_raw_data\<close> returns have the same \<^verbatim>\<open>key\<close>.
\<close>

theorem keys_distinct_without_colons:
  assumes "py_getitem raw_data ''actions'' = Inr (JObj actions)" and "raw_report actions"
    and "distinct (report_id_pairs actions)"
    and "list_all (\<lambda>item. no_colon (fst item)) actions \<or>
         list_all (\<lambda>p. str_no_colon (snd p)) (report_id_pairs actions)"
  shows "\<exists>es. transform_raw_data str_of raw_data = Inr es \<and> distinct (entry_keys es)"
proof -
  from assms(2) have raw: "list_all (\<lambda>item. raw_action_result (snd item)) actions"
    by (simp add: raw_report_def)
  from transform_raw_data_entries [OF assms(1,2), of str_of] obtain es where
    es: "transform_raw_data str_of raw_data = Inr es" "map Inr es = report_entries str_of actions"
    by blast
  have "entry_keys es = map (\<lambda>x. bind_result x (\<lambda>e. py_getitem e ''key'')) (map Inr es)"
    by (simp add: entry_keys_def comp_def)
  also have "\<dots> = map key_of_pair (report_id_pairs actions)"
    using es(2) report_entries_keys [OF raw, of str_of] by simp
  finally have "entry_keys es = map key_of_pair (report_id_pairs actions)" .
  moreover have "distinct (map key_of_pair (report_id_pairs actions))"
    using assms(3) key_of_pair_inj [OF raw assms(4)] by (simp add: distinct_map)
  ultimately show ?thesis using es(1) by auto
qed

lemma example_distinct: "distinct (report_id_pairs example_actions)"
  by code_simp

lemma example_no_colon: "list_all (\<lambda>item. no_colon (fst item)) example_actions"
  by code_simp

theorem keys_distinct_without_colons_witness:
  "raw_report example_actions \<and> distinct (report_id_pairs example_actions) \<and>
   list_all (\<lambda>item. no_colon (fst item)) example_actions \<and>
   (\<exists>es. transform_raw_data example_str_of example_data = Inr es \<and> distinct (entry_keys es))"
  using keys_distinct_without_colons [OF example_data_actions example_raw example_distinct
      disjI1 [OF example_no_colon], of example_str_of]
    example_raw example_distinct example_no_colon
  by simp

section \<open>The overall status\<close>

lemma raw_message_level:
  assumes "raw_message m"
  shows "\<exists>l. py_getitem m ''level'' = Inr (JStr l) \<and> field_values m ''level'' = [JStr l]"
proof -
  from assms obtain kvs i l d r g where "m = JObj kvs" "map_of kvs ''level'' = Some (JStr l)"
    by (rule raw_message_dict)
  then show ?thesis by (simp add: field_values_def)
qed

lemma collect_message_levels_raw:
  assumes "list_all raw_message ms"
  shows "collect_message_levels ms acc =
           Inr (acc @ concat (map (\<lambda>m. field_values m ''level'') ms))"
  using assms
proof (induction ms arbitrary: acc)
  case Nil
  then show ?case by simp
next
  case (Cons m ms)
  from Cons.prems have "raw_message m" and rest: "list_all raw_message ms" by simp_all
  from raw_message_level [OF this(1)] obtain l where
    "py_getitem m ''level'' = Inr (JStr l)" "field_values m ''level'' = [JStr l]" by blast
  then show ?case using Cons.IH [OF rest] by simp
qed

lemma raw_levels_str:
  assumes "list_all raw_message ms"
  shows "list_all is_str (concat (map (\<lambda>m. field_values m ''level'') ms))"
  using assms
proof (induction ms)
  case Nil
  then show ?case by simp
next
  case (Cons m ms)
  from Cons.prems have "raw_message m" by simp
  from raw_message_level [OF this] obtain l where "field_values m ''level'' = [JStr l]" by blast
  with Cons show ?case by simp
qed

lemma collect_action_levels_raw:
  assumes "list_all (\<lambda>item. raw_action_result (snd item)) actions"
  shows "collect_action_levels (map snd actions) acc = Inr (acc @ report_levels actions)"
  using assms
proof (induction actions arbitrary: acc)
  case Nil
  then show ?case by (simp add: report_levels_def)
next
  case (Cons item actions)
  from Cons.prems have a: "raw_action_result (snd item)"
    and rest: "list_all (\<lambda>item. raw_action_result (snd item)) actions" by simp_all
  from a obtain r where m: "py_getitem (snd item) ''messages'' = Inr (JArr (action_messages (snd item)))"
    and ms: "list_all raw_message (action_messages (snd item))"
    and r: "py_getitem (snd item) ''result'' = Inr r" and o: "action_own_result (snd item) = [r]"
    and rm: "raw_message r"
    by (rule raw_action_result_fields)
  from raw_message_level [OF rm] obtain l where
    l: "py_getitem r ''level'' = Inr (JStr l)" "field_values r ''level'' = [JStr l]" by blast
  have "action_levels (snd item) =
          JStr l # concat (map (\<lambda>m. field_values m ''level'') (action_messages (snd item)))"
    using o l(2) by (simp add: action_levels_def)
  then show ?case
    using m r l(1) collect_message_levels_raw [OF ms] Cons.IH [OF rest]
    by (simp add: report_levels_def)
qed

lemma report_levels_str:
  assumes "list_all (\<lambda>item. raw_action_result (snd item)) actions"
  shows "list_all is_str (report_levels actions)"
proof -
  have "list_all is_str (action_levels (snd item))" if "item \<in> set actions" for item
  proof -
    from assms that have "raw_action_result (snd item)" by (simp add: list_all_iff)
    then have "list_all raw_message (action_own_result (snd item) @ action_messages (snd item))"
      by (simp add: raw_action_result_def)
    then show ?thesis unfolding action_levels_def by (rule raw_levels_str)
  qed
  then show ?thesis by (auto simp: report_levels_def list_all_iff)
qed

lemma valid_levels_str:
  assumes "list_all is_str ls"
  shows "valid_levels ls = Inr (filter recognized ls)"
  using assms
proof (induction ls)
  case Nil
  then show ?case by simp
next
  case (Cons l ls)
  from Cons.prems obtain s where "l = JStr s" by (auto simp: is_str_iff)
  with Cons show ?case by (simp add: recognized_def)
qed






lemma collect_report_level_unrecognized:
  assumes "raw_report actions" and "\<not> (\<exists>l\<in>set (report_levels actions). recognized l)"
  shows "collect_report_level (JObj actions) = Inr []"
proof -
  from assms(1) have raw: "list_all (\<lambda>item. raw_action_result (snd item)) actions"
    by (simp add: raw_report_def)
  from assms(2) have "filter recognized (report_levels actions) = []"
    by (auto simp: filter_empty_conv)
  then show ?thesis
    using collect_action_levels_raw [OF raw, of "[]"]
      valid_levels_str [OF report_levels_str [OF raw]]
    by (simp add: collect_report_level_def sort_by_status_code_reverse_def)
qed

text \<open>
  Claim C4. For every raw report in which no level is a recognized severity name (a report
  without actions is one), \<^verbatim>\<open>collect_report_level\<close> returns the empty list and taking its
  first element raises \<^verbatim>\<open>IndexError\<close> in the \<^verbatim>\<open>try\<close> body: no status is made up from the
  report. The handler turns the failure into the output with the status "ERROR" and the
  text of the \<^verbatim>\<open>IndexError\<close>, which \<^verbatim>\<open>main\<close> prints once \<^verbatim>\<open>cleanup\<close> has completed.
\<close>

theorem no_recognized_level_fails:
  assumes "tool_ran w data" and "py_getitem data ''actions'' = Inr (JObj actions)"
    and "raw_report actions"
    and "\<not> (\<exists>l\<in>set (report_levels actions). recognized l)"
  shows "collect_report_level (JObj actions) = Inr [] \<and>
         main_try str_of w (OutputCollector_init (JStr '''') '''' '''' None) = Inl IndexError \<and>
         main str_of builtin_text w =
           bind_result (cleanup w) (\<lambda>_. Inr
             (JObj [(''status'', JStr ''ERROR''), (''message'', JStr ''''),
                    (''report'', JStr (builtin_text IndexError)), (''report_json'', JNull)]))"
proof -
  have c: "collect_report_level (JObj actions) = Inr []"
    using assms(3,4) by (rule collect_report_level_unrecognized)
  have t: "main_try str_of w (OutputCollector_init (JStr '''') '''' '''' None) = Inl IndexError"
    using assms(1,2) c by (rule main_try_empty_levels)
  from c t main_failure [OF t, of builtin_text] show ?thesis by simp
qed

lemma unrecognized_raw: "raw_report unrecognized_actions"
  by code_simp

lemma unrecognized_levels:
  "report_levels unrecognized_actions = [JStr ''FATAL'', JStr ''warning'']"
  by code_simp

theorem no_recognized_level_fails_witness:
  "raw_report unrecognized_actions \<and>
   report_levels unrecognized_actions = [JStr ''FATAL'', JStr ''warning''] \<and>
   \<not> recognized (JStr ''FATAL'') \<and> \<not> recognized (JStr ''warning'') \<and>
   collect_report_level (JObj unrecognized_actions) = Inr [] \<and>
   main example_str_of example_builtin_text
     (example_world (JObj [(''actions'', JObj unrecognized_actions)])) =
     Inr (JObj [(''status'', JStr ''ERROR''), (''message'', JStr ''''),
                (''report'', JStr ''list index out of range''), (''report_json'', JNull)])"
proof -
  have r: "\<not> recognized (JStr ''FATAL'')" "\<not> recognized (JStr ''warning'')"
    by (simp_all add: recognized_def STATUS_CODE_def)
  then have none: "\<not> (\<exists>l\<in>set (report_levels unrecognized_actions). recognized l)"
    by (simp add: unrecognized_levels)
  have a: "py_getitem (JObj [(''actions'', JObj unrecognized_actions)]) ''actions'' =
             Inr (JObj unrecognized_actions)"
    by simp
  from no_recognized_level_fails [OF example_tool_ran a unrecognized_raw none,
      of example_str_of example_builtin_text]
  show ?thesis using unrecognized_raw unrecognized_levels r by (simp add: example_cleanup)
qed






end
